theory Spec2Isabelle
  imports Main "HOL-Library.AList"
begin

section \<open>The host: panes, documents and the workspace\<close>

text \<open>
  The plugin of \<^verbatim>\<open>src/unnamed/part_000\<close> (and its earlier revision
  \<^verbatim>\<open>src/src/main.ts\<close>) keeps a registry of linked panes and pushes the
  document of one pane into its partner. A \<^verbatim>\<open>WorkspaceLeaf\<close> is an object
  of the host with reference identity; the registry stores references, so a leaf is
  modelled by its identity.
\<close>

type_synonym leaf = nat

text \<open>A \<^verbatim>\<open>TFile\<close>; the plugin reads only its \<^verbatim>\<open>path\<close>.\<close>

datatype tfile = TFile (path: string)

text \<open>
  A view of a leaf. \<^verbatim>\<open>view && 'file' in view ? view.file : null\<close> yields a file
  only for a view that has a non-null \<^verbatim>\<open>file\<close>; a view without the property
  and a view whose file is null both carry \<open>None\<close>.
\<close>

datatype view = View (view_file: "tfile option")

text \<open>
  A container of the layout tree (\<^verbatim>\<open>leaf.parent\<close>, \<^verbatim>\<open>parent.parent\<close>, ...).
  Each item holds the reference to its parent, null at the top.
\<close>

datatype item = WorkspaceItem (ident: nat) (parent: "item option")

text \<open>What a call into the host does: it returns a value or it throws.\<close>

datatype 'a completion = Returns 'a | Throws

text \<open>
  The part of the host's state the plugin reads, and the answers of the host to the two
  calls the plugin makes: \<^verbatim>\<open>createLeafBySplit\<close> (a new leaf, null, or an exception)
  and \<^verbatim>\<open>leaf.openFile\<close> (a promise that is never awaited, or an exception).
  \<open>allLeaves\<close> is the order in which \<^verbatim>\<open>iterateAllLeaves\<close> visits the live leaves.
\<close>

record workspace =
  rootSplit :: "item option"
  allLeaves :: "leaf list"
  activeLeaf :: "leaf option"
  leafParent :: "leaf \<Rightarrow> item option"
  leafView :: "leaf \<Rightarrow> view option"
  createLeafBySplit :: "leaf \<Rightarrow> leaf option completion"
  openFile :: "leaf \<Rightarrow> tfile \<Rightarrow> unit completion"

section \<open>The plugin state\<close>

text \<open>
  \<^verbatim>\<open>linkedLeaves: Map<WorkspaceLeaf, Set<WorkspaceLeaf>>\<close>. A JavaScript
  \<^verbatim>\<open>Map\<close> and a \<^verbatim>\<open>Set\<close> iterate in insertion order, so the map is an
  association list and each set a list without repetition. Every set object is made by
  \<^verbatim>\<open>new Set()\<close> for one key and is reached through that key only, so no two keys
  share a set and updating the value stored at a key is what mutating the set does.
\<close>

type_synonym registry = "(leaf \<times> leaf list) list"

text \<open>
  The fields of the plugin object, together with the trace \<open>opened\<close> of the calls
  \<^verbatim>\<open>leaf.openFile(file)\<close> issued so far (the document loads the plugin has
  instructed).
\<close>

record plugin =
  enabled :: bool
  isSyncing :: bool
  linkedLeaves :: registry
  opened :: "(leaf \<times> tfile) list"

definition initial :: "bool \<Rightarrow> plugin" where
  "initial en = \<lparr>enabled = en, isSyncing = False, linkedLeaves = [], opened = []\<rparr>"

text \<open>\<^verbatim>\<open>Set.prototype.add\<close>: an element already present is not added again.\<close>

definition setAdd :: "leaf \<Rightarrow> leaf list \<Rightarrow> leaf list" where
  "setAdd x s = (if x \<in> set s then s else s @ [x])"

text \<open>The file a leaf shows, read as both revisions do before linking or syncing.\<close>

definition viewFile :: "view option \<Rightarrow> tfile option" where
  "viewFile v = (case v of None \<Rightarrow> None | Some w \<Rightarrow> view_file w)"

section \<open>linkLeafWithPartner\<close>

text \<open>
  The loop \<^verbatim>\<open>while (parent) { if (parent === rootSplit) {...; break}; parent = parent.parent }\<close>,
  started at \<^verbatim>\<open>leaf.parent\<close>. Objects are compared by reference, that is by identity.
\<close>

fun isInRootSplit :: "item \<Rightarrow> item option \<Rightarrow> bool" where
  "isInRootSplit r None = False"
| "isInRootSplit r (Some (WorkspaceItem i up)) =
     (if i = ident r then True else isInRootSplit r up)"

text \<open>
  The callback handed to \<^verbatim>\<open>iterateAllLeaves\<close>; \<open>partner\<close> is the captured variable
  the callback assigns, threaded through the iteration.
\<close>

definition visitLeaf ::
  "workspace \<Rightarrow> item \<Rightarrow> leaf \<Rightarrow> string \<Rightarrow> leaf option \<Rightarrow> leaf \<Rightarrow> leaf option" where
  "visitLeaf ws r active activeFilePath partner l =
     (if isInRootSplit r (leafParent ws l) then
        (if l \<noteq> active \<and> partner = None then
           (case viewFile (leafView ws l) of
              None \<Rightarrow> partner
            | Some leafFile \<Rightarrow> if path leafFile = activeFilePath then Some l else partner)
         else partner)
      else partner)"

definition findPartner :: "workspace \<Rightarrow> leaf \<Rightarrow> string \<Rightarrow> leaf option" where
  "findPartner ws active activeFilePath =
     (case rootSplit ws of
        None \<Rightarrow> None
      | Some r \<Rightarrow> foldl (visitLeaf ws r active activeFilePath) None (allLeaves ws))"

text \<open>
  The block \<^verbatim>\<open>if (!partner && options.createIfNone) {...}\<close>. In
  \<^verbatim>\<open>src/src/main.ts\<close> the block is wrapped in \<^verbatim>\<open>try/catch\<close>, which leaves
  \<open>partner\<close> null when the host throws (\<open>catching = True\<close>); in the later revision the
  exception leaves the function (\<open>catching = False\<close>). The call to
  \<^verbatim>\<open>openFile\<close> is recorded before its outcome is known.
\<close>

definition createPartner ::
  "bool \<Rightarrow> workspace \<Rightarrow> plugin \<Rightarrow> leaf \<Rightarrow> tfile \<Rightarrow> plugin \<times> leaf option completion" where
  "createPartner catching ws st active activeFile =
     (case createLeafBySplit ws active of
        Throws \<Rightarrow> (st, if catching then Returns None else Throws)
      | Returns None \<Rightarrow> (st, Returns None)
      | Returns (Some newLeaf) \<Rightarrow>
          (let st' = st\<lparr>opened := opened st @ [(newLeaf, activeFile)]\<rparr> in
           case openFile ws newLeaf activeFile of
             Throws \<Rightarrow> (st', if catching then Returns None else Throws)
           | Returns u \<Rightarrow> (st', Returns (Some newLeaf))))"

text \<open>\<^verbatim>\<open>if (!this.linkedLeaves.has(k)) this.linkedLeaves.set(k, new Set())\<close>.\<close>

definition ensureEntry :: "leaf \<Rightarrow> registry \<Rightarrow> registry" where
  "ensureEntry k reg = (if map_of reg k = None then AList.update k [] reg else reg)"

text \<open>
  The body of \<^verbatim>\<open>if (partner) {...}\<close>: both entries are made if absent, both sets are
  cleared, and each leaf is added to the set of the other. \<open>AList.map_entry\<close> changes
  the set stored at a key, as \<^verbatim>\<open>this.linkedLeaves.get(k)!.clear()\<close> and
  \<^verbatim>\<open>.add(x)\<close> do; the key is present at that point (lemma \<open>ensureEntry_has\<close>).
\<close>

definition setLinkedPair :: "leaf \<Rightarrow> leaf \<Rightarrow> registry \<Rightarrow> registry" where
  "setLinkedPair active partner reg =
     (let r1 = ensureEntry active reg;
          r2 = ensureEntry partner r1;
          r3 = AList.map_entry active (\<lambda>s. []) r2;
          r4 = AList.map_entry partner (\<lambda>s. []) r3;
          r5 = AList.map_entry active (setAdd partner) r4
      in AList.map_entry partner (setAdd active) r5)"

definition linkLeafWithPartner ::
  "bool \<Rightarrow> workspace \<Rightarrow> plugin \<Rightarrow> leaf \<Rightarrow> bool \<Rightarrow> plugin \<times> leaf option completion" where
  "linkLeafWithPartner catching ws st active createIfNone =
     (case viewFile (leafView ws active) of
        None \<Rightarrow> (st, Returns None)
      | Some activeFile \<Rightarrow>
          (case (let found = findPartner ws active (path activeFile) in
                 if found = None \<and> createIfNone
                 then createPartner catching ws st active activeFile
                 else (st, Returns found)) of
             (st1, Throws) \<Rightarrow> (st1, Throws)
           | (st1, Returns None) \<Rightarrow> (st1, Returns None)
           | (st1, Returns (Some partner)) \<Rightarrow>
               (st1\<lparr>linkedLeaves := setLinkedPair active partner (linkedLeaves st1)\<rparr>,
                Returns (Some partner))))"

section \<open>syncFileToLinkedLeaves and the event handlers\<close>

text \<open>
  The \<^verbatim>\<open>try\<close> block: the flag is set, the set of the source leaf is looked up, and
  the first element of \<^verbatim>\<open>Array.from(linkedSet)\<close> is told to open the file if it has
  a view (\<^verbatim>\<open>leaf?.view\<close>).
\<close>

definition syncTry :: "workspace \<Rightarrow> plugin \<Rightarrow> leaf \<Rightarrow> tfile \<Rightarrow> plugin \<times> unit completion" where
  "syncTry ws st sourceLeaf f =
     (let st1 = st\<lparr>isSyncing := True\<rparr> in
      case map_of (linkedLeaves st1) sourceLeaf of
        None \<Rightarrow> (st1, Returns ())
      | Some linkedSet \<Rightarrow>
          (case linkedSet of
             [] \<Rightarrow> (st1, Returns ())
           | l # rest \<Rightarrow>
               (case leafView ws l of
                  None \<Rightarrow> (st1, Returns ())
                | Some v \<Rightarrow> (st1\<lparr>opened := opened st1 @ [(l, f)]\<rparr>, openFile ws l f))))"

text \<open>
  \<^verbatim>\<open>if (!file) return;\<close> precedes the \<^verbatim>\<open>try\<close>; the \<^verbatim>\<open>finally\<close> clause
  clears the flag whether the block returned or threw, and an exception then leaves the
  function.
\<close>

definition syncFileToLinkedLeaves ::
  "workspace \<Rightarrow> plugin \<Rightarrow> leaf \<Rightarrow> tfile option \<Rightarrow> plugin \<times> unit completion" where
  "syncFileToLinkedLeaves ws st sourceLeaf fileOpt =
     (case fileOpt of
        None \<Rightarrow> (st, Returns ())
      | Some f \<Rightarrow>
          (case syncTry ws st sourceLeaf f of
             (st1, r) \<Rightarrow> (st1\<lparr>isSyncing := False\<rparr>, r)))"

text \<open>The handler of \<^verbatim>\<open>active-leaf-change\<close> (\<^verbatim>\<open>src/unnamed/part_000\<close>, lines 38-50).\<close>

definition onActiveLeafChange ::
  "workspace \<Rightarrow> plugin \<Rightarrow> leaf option \<Rightarrow> plugin \<times> unit completion" where
  "onActiveLeafChange ws st leafOpt =
     (if \<not> enabled st \<or> isSyncing st \<or> leafOpt = None then (st, Returns ())
      else case leafOpt of
             None \<Rightarrow> (st, Returns ())
           | Some l \<Rightarrow>
               (case viewFile (leafView ws l) of
                  None \<Rightarrow> (st, Returns ())
                | Some f \<Rightarrow> syncFileToLinkedLeaves ws st l (Some f)))"

text \<open>The handler of \<^verbatim>\<open>file-open\<close> (\<^verbatim>\<open>src/src/main.ts\<close>, lines 38-49).\<close>

definition onFileOpen ::
  "workspace \<Rightarrow> plugin \<Rightarrow> tfile option \<Rightarrow> plugin \<times> unit completion" where
  "onFileOpen ws st fileOpt =
     (if \<not> enabled st \<or> isSyncing st \<or> fileOpt = None then (st, Returns ())
      else case activeLeaf ws of
             None \<Rightarrow> (st, Returns ())
           | Some l \<Rightarrow>
               (case leafView ws l of
                  None \<Rightarrow> (st, Returns ())
                | Some v \<Rightarrow> syncFileToLinkedLeaves ws st l fileOpt))"

section \<open>cleanupClosedLeaves and the indicators\<close>

text \<open>
  The set of live leaves is collected, the keys of the registry that are not in it are
  collected, and each of them is deleted from the map.
\<close>

definition cleanupClosedLeaves :: "workspace \<Rightarrow> plugin \<Rightarrow> plugin" where
  "cleanupClosedLeaves ws st =
     (let activeLeaves = foldl (\<lambda>s l. setAdd l s) [] (allLeaves ws);
          keysToDelete =
            map fst (filter (\<lambda>(l, linkedSet). l \<notin> set activeLeaves) (linkedLeaves st))
      in st\<lparr>linkedLeaves := foldl (\<lambda>m k. AList.delete k m) (linkedLeaves st) keysToDelete\<rparr>)"

text \<open>
  \<^verbatim>\<open>updateLeafVisualIndicators\<close> changes the document tree of the host only. The
  leaves it marks are those whose set is not empty (its second loop); the presence of a
  tab header is left to the host.
\<close>

definition indicatorLeaves :: "registry \<Rightarrow> leaf list" where
  "indicatorLeaves reg = map fst (filter (\<lambda>(l, linkedSet). length linkedSet > 0) reg)"

text \<open>
  The partner a leaf pushes its document to: the lookup of \<^verbatim>\<open>syncFileToLinkedLeaves\<close>,
  \<^verbatim>\<open>linkedSet && linkedSet.size > 0\<close> and then the first element.
\<close>

definition linkedPartner :: "registry \<Rightarrow> leaf \<Rightarrow> leaf option" where
  "linkedPartner reg l =
     (case map_of reg l of
        None \<Rightarrow> None
      | Some linkedSet \<Rightarrow> (case linkedSet of [] \<Rightarrow> None | p # rest \<Rightarrow> Some p))"

text \<open>
  The test the callback applies to a leaf before it looks at its document: the workspace
  has a root split and the walk from \<^verbatim>\<open>leaf.parent\<close> reaches it.
\<close>

definition inMainArea :: "workspace \<Rightarrow> leaf \<Rightarrow> bool" where
  "inMainArea ws l =
     (case rootSplit ws of None \<Rightarrow> False | Some r \<Rightarrow> isInRootSplit r (leafParent ws l))"

text \<open>The leaves the callback would assign to \<open>partner\<close> while it is still null.\<close>

definition qualifies :: "workspace \<Rightarrow> item \<Rightarrow> leaf \<Rightarrow> string \<Rightarrow> leaf \<Rightarrow> bool" where
  "qualifies ws r active activeFilePath l =
     (isInRootSplit r (leafParent ws l) \<and> l \<noteq> active \<and>
      (case viewFile (leafView ws l) of
         None \<Rightarrow> False
       | Some leafFile \<Rightarrow> path leafFile = activeFilePath))"

section \<open>The entry points, one call at a time\<close>

text \<open>
  The host runs the plugin on one thread and calls one entry point at a time: the link
  command or the tab menu entry (\<open>Link\<close>, with the revision's handling of host
  exceptions, the leaf and \<^verbatim>\<open>createIfNone\<close>), the two event handlers and the
  handler of \<^verbatim>\<open>layout-change\<close>. An exception that leaves an entry point goes to
  the host; the plugin object keeps the state it had then.
\<close>

datatype action =
    Link bool leaf bool
  | ActiveLeafChange "leaf option"
  | FileOpen "tfile option"
  | LayoutChange

fun step :: "workspace \<Rightarrow> plugin \<Rightarrow> action \<Rightarrow> plugin" where
  "step ws st (Link catching l createIfNone) = fst (linkLeafWithPartner catching ws st l createIfNone)"
| "step ws st (ActiveLeafChange leafOpt) = fst (onActiveLeafChange ws st leafOpt)"
| "step ws st (FileOpen fileOpt) = fst (onFileOpen ws st fileOpt)"
| "step ws st LayoutChange = cleanupClosedLeaves ws st"

text \<open>A run: each call comes with the workspace as the host has it at that moment.\<close>

fun run :: "plugin \<Rightarrow> (workspace \<times> action) list \<Rightarrow> plugin" where
  "run st [] = st"
| "run st ((ws, a) # rest) = run (step ws st a) rest"

text \<open>
  Modelled from the spec: the notification the host raises for a load (the host is not in
  the sources). Section 5 of the spec: propagating a document into a partner pane itself
  raises a notification for that partner. Once pane \<open>l\<close> has loaded \<open>f\<close> it shows \<open>f\<close>, and
  the host raises the event the revision listens to for that pane:
  \<^verbatim>\<open>active-leaf-change\<close> with \<open>l\<close> (\<^verbatim>\<open>src/unnamed/part_000\<close>), or
  \<^verbatim>\<open>file-open\<close> with \<open>f\<close> while \<open>l\<close> is the active leaf (\<^verbatim>\<open>src/src/main.ts\<close>,
  \<open>fileOpenEvents = True\<close>).
\<close>

definition loaded :: "workspace \<Rightarrow> leaf \<Rightarrow> tfile \<Rightarrow> workspace" where
  "loaded ws l f =
     ws\<lparr>activeLeaf := Some l, leafView := (leafView ws)(l := Some (View (Some f)))\<rparr>"

definition notification :: "bool \<Rightarrow> workspace \<Rightarrow> leaf \<times> tfile \<Rightarrow> workspace \<times> action" where
  "notification fileOpenEvents ws lf =
     (case lf of
        (l, f) \<Rightarrow>
          (loaded ws l f,
           if fileOpenEvents then FileOpen (Some f) else ActiveLeafChange (Some l)))"


text \<open>Every linked set holds at most one leaf.\<close>

definition exclusive :: "registry \<Rightarrow> bool" where
  "exclusive reg = list_all (\<lambda>(l, linkedSet). length linkedSet \<le> 1) reg"

text \<open>The keys of the registry are pairwise different, as the keys of a \<^verbatim>\<open>Map\<close> are.\<close>

definition wellFormed :: "registry \<Rightarrow> bool" where
  "wellFormed reg = distinct (map fst reg)"

text \<open>Whenever the set of a leaf holds a leaf, the set of that leaf holds the first.\<close>

definition symmetricLinks :: "registry \<Rightarrow> bool" where
  "symmetricLinks reg =
     list_all (\<lambda>(a, linkedSet).
       list_all (\<lambda>b. case map_of reg b of None \<Rightarrow> False | Some t \<Rightarrow> a \<in> set t) linkedSet) reg"

section \<open>Scenarios\<close>

text \<open>
  A layout with a main area (\<open>mainRoot\<close>, holding the tab group \<open>tabGroup\<close>) and a side
  panel. The panes 1, 2 and 3 are in the main area and pane 4 is in the side panel, all
  four showing \<^verbatim>\<open>notes.md\<close>; pane 5 is in the main area and shows no document.
\<close>

definition mainRoot :: item where
  "mainRoot = WorkspaceItem 100 None"

definition tabGroup :: item where
  "tabGroup = WorkspaceItem 101 (Some mainRoot)"

definition sidePanel :: item where
  "sidePanel = WorkspaceItem 200 None"

definition notesMd :: tfile where
  "notesMd = TFile ''notes.md''"

definition draftMd :: tfile where
  "draftMd = TFile ''draft.md''"

definition threePanes :: workspace where
  "threePanes =
     \<lparr>rootSplit = Some mainRoot,
      allLeaves = [1, 2, 3, 4, 5],
      activeLeaf = Some 1,
      leafParent = (\<lambda>l. if l = 4 then Some sidePanel else Some tabGroup),
      leafView = (\<lambda>l. if l = 5 then Some (View None) else Some (View (Some notesMd))),
      createLeafBySplit = (\<lambda>l. Returns (Some 9)),
      openFile = (\<lambda>l f. Returns ())\<rparr>"

text \<open>The same layout after pane 2 has navigated to \<^verbatim>\<open>draft.md\<close>.\<close>

definition paneTwoMoved :: workspace where
  "paneTwoMoved =
     threePanes\<lparr>leafView :=
       (\<lambda>l. if l = 5 then Some (View None)
            else if l = 2 then Some (View (Some draftMd))
            else Some (View (Some notesMd)))\<rparr>"

text \<open>The same layout after the host has closed pane 2: it is not live and has no view.\<close>

definition paneTwoClosed :: workspace where
  "paneTwoClosed =
     threePanes\<lparr>allLeaves := [1, 3, 4, 5],
       leafView :=
         (\<lambda>l. if l = 2 then None
              else if l = 5 then Some (View None)
              else Some (View (Some notesMd)))\<rparr>"

text \<open>Only pane 1 and pane 5 of the main area are open, and the side panel is visited first.\<close>

definition onlySidePanel :: workspace where
  "onlySidePanel = threePanes\<lparr>allLeaves := [4, 1, 5]\<rparr>"

text \<open>A host whose \<^verbatim>\<open>openFile\<close> throws.\<close>

definition failingHost :: workspace where
  "failingHost = threePanes\<lparr>openFile := (\<lambda>l f. Throws)\<rparr>"

text \<open>The plugin with the panes 1 and 2 linked to each other.\<close>

definition linkedOneTwo :: plugin where
  "linkedOneTwo = \<lparr>enabled = True, isSyncing = False,
     linkedLeaves = [(1, [2]), (2, [1])], opened = []\<rparr>"

text \<open>A registry in which the set of pane 1 holds two panes.\<close>

definition twoInSet :: plugin where
  "twoInSet = \<lparr>enabled = True, isSyncing = False, linkedLeaves = [(1, [2, 3])], opened = []\<rparr>"

section \<open>The registry\<close>

lemma map_of_ensureEntry:
  "map_of (ensureEntry k reg) =
     (if map_of reg k = None then (map_of reg)(k \<mapsto> []) else map_of reg)"
  by (simp add: ensureEntry_def update_conv')

lemma ensureEntry_has: "map_of (ensureEntry k reg) k \<noteq> None"
  by (simp add: map_of_ensureEntry)

lemma ensureEntry_keeps: "map_of reg j \<noteq> None \<Longrightarrow> map_of (ensureEntry k reg) j \<noteq> None"
  by (simp add: map_of_ensureEntry)

text \<open>
  What linking writes: the two sets become singletons of each other, and the entry of
  every other leaf stays as it was, whatever it holds.
\<close>

lemma map_of_setLinkedPair:
  "map_of (setLinkedPair a p reg) k =
     (if k = p then Some [a] else if k = a then Some [p] else map_of reg k)"
  by (auto simp add: setLinkedPair_def Let_def map_of_map_entry map_of_ensureEntry setAdd_def
      split: option.splits)

lemma wellFormed_setLinkedPair: "wellFormed reg \<Longrightarrow> wellFormed (setLinkedPair a p reg)"
  by (simp add: setLinkedPair_def Let_def wellFormed_def distinct_map_entry ensureEntry_def
      distinct_update)

lemma exclusive_iff: "exclusive reg \<longleftrightarrow> (\<forall>(l, s) \<in> set reg. length s \<le> 1)"
  by (auto simp add: exclusive_def list_all_iff)

lemma exclusive_map_of:
  "wellFormed reg \<Longrightarrow>
   exclusive reg \<longleftrightarrow> (\<forall>l s. map_of reg l = Some s \<longrightarrow> length s \<le> 1)"
  by (auto simp add: exclusive_iff wellFormed_def dest: map_of_SomeD)

lemma exclusive_setLinkedPair:
  assumes "wellFormed reg" and "exclusive reg"
  shows "exclusive (setLinkedPair a p reg)"
proof -
  have wf: "wellFormed (setLinkedPair a p reg)"
    using assms(1) by (rule wellFormed_setLinkedPair)
  have old: "\<And>l s. map_of reg l = Some s \<Longrightarrow> length s \<le> 1"
    using assms by (simp add: exclusive_map_of)
  show ?thesis
    unfolding exclusive_map_of [OF wf]
    by (auto simp add: map_of_setLinkedPair dest: old split: if_splits)
qed

lemma exclusive_filter: "exclusive reg \<Longrightarrow> exclusive (filter P reg)"
  by (auto simp add: exclusive_iff)

lemma wellFormed_filter: "wellFormed reg \<Longrightarrow> wellFormed (filter P reg)"
  by (simp add: wellFormed_def distinct_map_filter)

section \<open>The search for a partner\<close>

lemma visitLeaf_Some [simp]: "visitLeaf ws r a p (Some x) l = Some x"
  by (simp add: visitLeaf_def)

lemma foldl_visitLeaf_Some [simp]: "foldl (visitLeaf ws r a p) (Some x) ls = Some x"
  by (induction ls) simp_all

lemma visitLeaf_None:
  "visitLeaf ws r a p None l = (if qualifies ws r a p l then Some l else None)"
  by (simp add: visitLeaf_def qualifies_def split: option.splits)

text \<open>The iteration yields the first leaf, in the order of the host, that qualifies.\<close>

lemma foldl_visitLeaf_first:
  "foldl (visitLeaf ws r a p) None ls =
     (case filter (qualifies ws r a p) ls of [] \<Rightarrow> None | l # rest \<Rightarrow> Some l)"
  by (induction ls) (simp_all add: visitLeaf_None)

lemma findPartner_first:
  "findPartner ws a p =
     (case rootSplit ws of
        None \<Rightarrow> None
      | Some r \<Rightarrow>
          (case filter (qualifies ws r a p) (allLeaves ws) of
             [] \<Rightarrow> None
           | l # rest \<Rightarrow> Some l))"
  by (simp add: findPartner_def foldl_visitLeaf_first split: option.splits)

lemma findPartner_SomeD:
  assumes "findPartner ws a p = Some l"
  shows "\<exists>r. rootSplit ws = Some r \<and> qualifies ws r a p l \<and> l \<in> set (allLeaves ws)"
proof -
  from assms obtain r rest where r: "rootSplit ws = Some r"
    and f: "filter (qualifies ws r a p) (allLeaves ws) = l # rest"
    by (auto simp add: findPartner_first split: option.splits list.splits)
  from f have "l \<in> set (filter (qualifies ws r a p) (allLeaves ws))"
    by simp
  with r show ?thesis
    by simp
qed

lemma createPartner_result:
  "createPartner c ws st a f = (st', Returns (Some l)) \<Longrightarrow>
   createLeafBySplit ws a = Returns (Some l)"
  by (auto simp add: createPartner_def Let_def
      split: completion.splits option.splits if_splits)

lemma createPartner_fields:
  "isSyncing (fst (createPartner c ws st a f)) = isSyncing st"
  "linkedLeaves (fst (createPartner c ws st a f)) = linkedLeaves st"
  "enabled (fst (createPartner c ws st a f)) = enabled st"
  by (simp_all add: createPartner_def Let_def split: completion.splits option.splits)

text \<open>A leaf that is returned was found by the search or was made by the host just now.\<close>

lemma linkLeafWithPartner_result:
  assumes "snd (linkLeafWithPartner c ws st a ci) = Returns (Some l)"
  shows "(\<exists>f. viewFile (leafView ws a) = Some f \<and> findPartner ws a (path f) = Some l) \<or>
         createLeafBySplit ws a = Returns (Some l)"
  using assms
  by (auto simp add: linkLeafWithPartner_def Let_def
      split: option.splits if_splits prod.splits completion.splits
      dest: createPartner_result)

section \<open>Linking a pane that shows no document\<close>

text \<open>
  Claim C5. When the source pane shows no document, \<open>linkLeafWithPartner\<close> returns null,
  and the whole plugin state (registry, flag, settings, issued loads) is the state before
  the call, in both revisions and whether or not a pane may be created.
\<close>

theorem linkLeafWithPartner_no_document:
  assumes "viewFile (leafView ws active) = None"
  shows "linkLeafWithPartner catching ws st active createIfNone = (st, Returns None)"
  using assms by (simp add: linkLeafWithPartner_def)

text \<open>Pane 5 shows no document: linking it leaves the pair of panes 1 and 2 as it is.\<close>

theorem linkLeafWithPartner_no_document_witness:
  "viewFile (leafView threePanes 5) = None \<and>
   linkLeafWithPartner False threePanes linkedOneTwo 5 True = (linkedOneTwo, Returns None)"
proof -
  have h: "viewFile (leafView threePanes 5) = None"
    by (simp add: threePanes_def viewFile_def)
  show ?thesis
    using h linkLeafWithPartner_no_document [OF h, of False linkedOneTwo True] by simp
qed

section \<open>Panes outside the main area\<close>

text \<open>
  Claim C6. A pane whose walk up the parents does not reach the root split of the main
  area is never the result of the search, whatever document it shows and whichever pane
  and path the search is run for. Hence \<open>linkLeafWithPartner\<close> returns such a pane only
  when it is the leaf the host has just made by \<^verbatim>\<open>createLeafBySplit\<close>.
\<close>

theorem outside_main_area_never_selected:
  assumes "\<not> inMainArea ws l"
  shows "findPartner ws a p \<noteq> Some l \<and>
         (createLeafBySplit ws a \<noteq> Returns (Some l) \<longrightarrow>
          snd (linkLeafWithPartner c ws st a ci) \<noteq> Returns (Some l))"
proof -
  have n: "findPartner ws a q \<noteq> Some l" for q
    using assms by (auto simp add: inMainArea_def qualifies_def dest!: findPartner_SomeD)
  show ?thesis
    using n linkLeafWithPartner_result [of c ws st a ci l] by auto
qed

text \<open>
  Pane 4 of the side panel shows the document of pane 1 and is visited first, and it is
  not chosen.
\<close>

theorem outside_main_area_never_selected_witness:
  "\<not> inMainArea onlySidePanel 4 \<and>
   viewFile (leafView onlySidePanel 4) = viewFile (leafView onlySidePanel 1) \<and>
   findPartner onlySidePanel 1 ''notes.md'' \<noteq> Some 4 \<and>
   snd (linkLeafWithPartner False onlySidePanel (initial True) 1 True) \<noteq> Returns (Some 4)"
proof -
  have h: "\<not> inMainArea onlySidePanel 4"
    by (simp add: inMainArea_def onlySidePanel_def threePanes_def mainRoot_def sidePanel_def)
  have c: "createLeafBySplit onlySidePanel 1 \<noteq> Returns (Some 4)"
    by (simp add: onlySidePanel_def threePanes_def)
  have v: "viewFile (leafView onlySidePanel 4) = viewFile (leafView onlySidePanel 1)"
    by (simp add: onlySidePanel_def threePanes_def)
  show ?thesis
    using h c v
      outside_main_area_never_selected [OF h, of 1 "''notes.md''" False "initial True" True]
    by simp
qed

section \<open>Cleaning up after closed panes\<close>

lemma set_foldl_setAdd: "set (foldl (\<lambda>s l. setAdd l s) acc xs) = set acc \<union> set xs"
  by (induction xs arbitrary: acc) (auto simp add: setAdd_def)

lemma foldl_delete_filter:
  "foldl (\<lambda>m k. AList.delete k m) reg ks = filter (\<lambda>(k, s). k \<notin> set ks) reg"
proof (induction ks arbitrary: reg)
  case Nil
  then show ?case by simp
next
  case (Cons k ks)
  have "filter (\<lambda>(j, s). j \<notin> set ks) (AList.delete k reg) =
        filter (\<lambda>(j, s). j \<notin> set (k # ks)) reg"
    by (induction reg) (auto simp add: AList.delete_eq)
  with Cons show ?case by simp
qed

text \<open>What is left of the registry: the entries whose key is a live leaf, each as it was.\<close>

lemma cleanupClosedLeaves_filter:
  "linkedLeaves (cleanupClosedLeaves ws st) =
     filter (\<lambda>(l, s). l \<in> set (allLeaves ws)) (linkedLeaves st)"
proof -
  have "filter (\<lambda>(k, s). k \<notin> fst ` {x \<in> set reg. case x of (l, s) \<Rightarrow> l \<notin> L}) reg =
        filter (\<lambda>(l, s). l \<in> L) reg" for reg :: registry and L
    by (rule filter_cong) (auto simp add: image_iff)
  then show ?thesis
    by (simp add: cleanupClosedLeaves_def Let_def foldl_delete_filter set_foldl_setAdd)
qed

lemma cleanupClosedLeaves_fields:
  "enabled (cleanupClosedLeaves ws st) = enabled st"
  "isSyncing (cleanupClosedLeaves ws st) = isSyncing st"
  "opened (cleanupClosedLeaves ws st) = opened st"
  by (simp_all add: cleanupClosedLeaves_def Let_def)

lemma map_of_filter_key:
  "map_of (filter (\<lambda>(l, s). P l) reg) k = (if P k then map_of reg k else None)"
  by (induction reg) auto

text \<open>The entry of a pane that is no longer live is gone after the call.\<close>

lemma cleanupClosedLeaves_removes_key:
  "l \<notin> set (allLeaves ws) \<Longrightarrow> map_of (linkedLeaves (cleanupClosedLeaves ws st)) l = None"
  by (simp add: cleanupClosedLeaves_filter map_of_filter_key)

text \<open>
  Claim C9. \<open>cleanupClosedLeaves\<close> keeps exactly the entries whose key is a live leaf, in
  their order and with their sets as they were: the entry of a live pane is the same
  before and after. The settings, the flag and the issued loads are not touched.
\<close>

theorem cleanupClosedLeaves_frame:
  "linkedLeaves (cleanupClosedLeaves ws st) =
     filter (\<lambda>(k, linkedSet). k \<in> set (allLeaves ws)) (linkedLeaves st) \<and>
   (l \<in> set (allLeaves ws) \<longrightarrow>
      map_of (linkedLeaves (cleanupClosedLeaves ws st)) l = map_of (linkedLeaves st) l) \<and>
   enabled (cleanupClosedLeaves ws st) = enabled st \<and>
   isSyncing (cleanupClosedLeaves ws st) = isSyncing st \<and>
   opened (cleanupClosedLeaves ws st) = opened st"
  by (simp add: cleanupClosedLeaves_filter cleanupClosedLeaves_fields map_of_filter_key)

text \<open>Pane 1 is live after pane 2 has been closed, and its set is still the one it had.\<close>

theorem cleanupClosedLeaves_frame_witness:
  "1 \<in> set (allLeaves paneTwoClosed) \<and>
   map_of (linkedLeaves (cleanupClosedLeaves paneTwoClosed linkedOneTwo)) 1 = Some [2] \<and>
   linkedLeaves (cleanupClosedLeaves paneTwoClosed linkedOneTwo) = [(1, [2])]"
  using cleanupClosedLeaves_frame [of paneTwoClosed linkedOneTwo 1]
  by (simp add: paneTwoClosed_def threePanes_def linkedOneTwo_def)

text \<open>
  Claim C3. The panes 1 and 2 are linked and the host closes pane 2. The call deletes the
  entry of pane 2, and the set of the surviving pane 1 still holds the closed pane: pane 2
  is still the first element of the set of pane 1, and pane 1 keeps its indicator.
\<close>

theorem cleanup_keeps_link_to_closed_pane:
  "2 \<notin> set (allLeaves paneTwoClosed) \<and>
   linkedLeaves (cleanupClosedLeaves paneTwoClosed linkedOneTwo) = [(1, [2])] \<and>
   linkedPartner (linkedLeaves (cleanupClosedLeaves paneTwoClosed linkedOneTwo)) 1 = Some 2 \<and>
   indicatorLeaves (linkedLeaves (cleanupClosedLeaves paneTwoClosed linkedOneTwo)) = [1]"
  by (simp add: cleanupClosedLeaves_def paneTwoClosed_def threePanes_def linkedOneTwo_def
      setAdd_def linkedPartner_def indicatorLeaves_def)

section \<open>The flag isSyncing\<close>

lemma syncTry_isSyncing: "isSyncing (fst (syncTry ws st src f))"
  by (simp add: syncTry_def Let_def split: option.splits list.splits)

lemma syncFileToLinkedLeaves_linkedLeaves:
  "linkedLeaves (fst (syncFileToLinkedLeaves ws st src fo)) = linkedLeaves st"
  by (simp add: syncFileToLinkedLeaves_def syncTry_def Let_def
      split: option.splits list.splits prod.splits)

lemma syncFileToLinkedLeaves_clears:
  "\<not> isSyncing (fst (syncFileToLinkedLeaves ws st src (Some f)))"
  by (simp add: syncFileToLinkedLeaves_def split: prod.splits)

lemma syncFileToLinkedLeaves_isSyncing:
  "\<not> isSyncing st \<Longrightarrow> \<not> isSyncing (fst (syncFileToLinkedLeaves ws st src fo))"
  by (cases fo) (simp_all add: syncFileToLinkedLeaves_def split: prod.splits)

lemma onActiveLeafChange_isSyncing:
  "\<not> isSyncing st \<Longrightarrow> \<not> isSyncing (fst (onActiveLeafChange ws st ev))"
  by (auto simp add: onActiveLeafChange_def syncFileToLinkedLeaves_clears split: option.splits)

lemma onFileOpen_isSyncing: "\<not> isSyncing st \<Longrightarrow> \<not> isSyncing (fst (onFileOpen ws st ev))"
  by (auto simp add: onFileOpen_def syncFileToLinkedLeaves_isSyncing split: option.splits)

lemma linkLeafWithPartner_isSyncing:
  "isSyncing (fst (linkLeafWithPartner c ws st a ci)) = isSyncing st"
proof (cases "viewFile (leafView ws a)")
  case None
  then show ?thesis by (simp add: linkLeafWithPartner_def)
next
  case (Some f)
  show ?thesis
  proof (cases "findPartner ws a (path f) = None \<and> ci")
    case True
    then show ?thesis
      using createPartner_fields(1) [of c ws st a f] Some
      by (cases "createPartner c ws st a f")
        (auto simp add: linkLeafWithPartner_def Let_def split: completion.splits option.splits)
  next
    case False
    then show ?thesis
      using Some
      by (auto simp add: linkLeafWithPartner_def Let_def split: completion.splits option.splits)
  qed
qed

lemma step_isSyncing: "\<not> isSyncing st \<Longrightarrow> \<not> isSyncing (step ws st a)"
  by (cases a)
    (simp_all add: linkLeafWithPartner_isSyncing onActiveLeafChange_isSyncing
      onFileOpen_isSyncing cleanupClosedLeaves_fields)

lemma run_isSyncing: "\<not> isSyncing st \<Longrightarrow> \<not> isSyncing (run st acts)"
  by (induction st acts rule: run.induct) (simp_all add: step_isSyncing)

text \<open>
  Claim C8. A call of \<open>syncFileToLinkedLeaves\<close> with a file ends with the flag cleared,
  from any state and whether \<^verbatim>\<open>openFile\<close> returned or threw. A call from a state
  with the flag cleared ends with the flag cleared also when the file is null, and so does
  every run of entry points: between two calls of the host the flag is never set.
\<close>

theorem isSyncing_cleared_after_sync:
  "\<not> isSyncing (fst (syncFileToLinkedLeaves ws st src (Some f))) \<and>
   (\<not> isSyncing st \<longrightarrow>
      \<not> isSyncing (fst (syncFileToLinkedLeaves ws st src fileOpt)) \<and>
      \<not> isSyncing (run st acts))"
  by (simp add: syncFileToLinkedLeaves_clears syncFileToLinkedLeaves_isSyncing run_isSyncing)

text \<open>The host throws from \<^verbatim>\<open>openFile\<close>; the flag is cleared, there and after a run.\<close>

theorem isSyncing_cleared_after_sync_witness:
  "snd (syncFileToLinkedLeaves failingHost linkedOneTwo 1 (Some draftMd)) = Throws \<and>
   \<not> isSyncing (fst (syncFileToLinkedLeaves failingHost linkedOneTwo 1 (Some draftMd))) \<and>
   \<not> isSyncing linkedOneTwo \<and>
   \<not> isSyncing (run linkedOneTwo
        [(failingHost, ActiveLeafChange (Some 1)), (threePanes, Link False 3 True),
         (paneTwoClosed, LayoutChange), (threePanes, FileOpen (Some draftMd))])"
proof -
  have t: "snd (syncFileToLinkedLeaves failingHost linkedOneTwo 1 (Some draftMd)) = Throws"
    by (simp add: syncFileToLinkedLeaves_def syncTry_def failingHost_def threePanes_def
        linkedOneTwo_def)
  have n: "\<not> isSyncing linkedOneTwo"
    by (simp add: linkedOneTwo_def)
  show ?thesis
    using t n
      isSyncing_cleared_after_sync [of failingHost linkedOneTwo 1 draftMd "Some draftMd"
        "[(failingHost, ActiveLeafChange (Some 1)), (threePanes, Link False 3 True),
          (paneTwoClosed, LayoutChange), (threePanes, FileOpen (Some draftMd))]"]
    by simp
qed

text \<open>
  What the flag does: an event handled while it is set changes nothing. The flag is set in
  the \<^verbatim>\<open>try\<close> block only, so the notification of a load is ignored only if it is
  handled before that block is left.
\<close>

lemma handlers_return_while_syncing:
  "isSyncing st \<Longrightarrow>
   step ws st (ActiveLeafChange leafOpt) = st \<and> step ws st (FileOpen fileOpt) = st"
  by (simp add: onActiveLeafChange_def onFileOpen_def)

lemma notification_inside_try_ignored:
  "step (fst (notification fo ws' lf)) (fst (syncTry ws st src f)) (snd (notification fo ws' lf)) =
     fst (syncTry ws st src f)"
  by (cases lf)
    (simp add: notification_def syncTry_isSyncing onActiveLeafChange_def onFileOpen_def)




section \<open>Which pane is told to load\<close>

text \<open>
  Claim C10, as amended. When the set of the source pane is not empty, one call of
  \<open>syncFileToLinkedLeaves\<close> instructs at most one pane: the first element of the set if
  that leaf has a view, and no pane otherwise. No other member of the set is instructed.
\<close>

theorem sync_instructs_first_with_view:
  assumes "map_of (linkedLeaves st) src = Some (p # rest)"
  shows "opened (fst (syncFileToLinkedLeaves ws st src (Some f))) =
           opened st @ (if leafView ws p = None then [] else [(p, f)])"
  using assms
  by (simp add: syncFileToLinkedLeaves_def syncTry_def Let_def split: option.splits prod.splits)

text \<open>The set of pane 1 holds the panes 2 and 3: only pane 2 is told to load.\<close>

theorem sync_instructs_first_with_view_witness:
  "map_of (linkedLeaves twoInSet) 1 = Some [2, 3] \<and>
   opened (fst (syncFileToLinkedLeaves threePanes twoInSet 1 (Some draftMd))) = [(2, draftMd)]"
proof -
  have h: "map_of (linkedLeaves twoInSet) 1 = Some (2 # [3])"
    by (simp add: twoInSet_def)
  show ?thesis
    using h sync_instructs_first_with_view [OF h, of threePanes draftMd]
    by (simp add: twoInSet_def threePanes_def)
qed

text \<open>
  The claim as stated fails when the first element has no view: the set of pane 1 is not
  empty, and the call instructs no pane.
\<close>

theorem sync_without_view_instructs_nobody:
  "map_of (linkedLeaves linkedOneTwo) 1 = Some [2] \<and>
   opened (fst (syncFileToLinkedLeaves paneTwoClosed linkedOneTwo 1 (Some draftMd))) = []"
  by (simp add: syncFileToLinkedLeaves_def syncTry_def paneTwoClosed_def threePanes_def
      linkedOneTwo_def)

section \<open>The setting enabled\<close>

lemma createPartner_enabled:
  "createPartner c ws (st\<lparr>enabled := b\<rparr>) a f =
     (case createPartner c ws st a f of (st', r) \<Rightarrow> (st'\<lparr>enabled := b\<rparr>, r))"
  by (simp add: createPartner_def Let_def split: completion.splits option.splits)

lemma linkLeafWithPartner_enabled:
  "linkLeafWithPartner c ws (st\<lparr>enabled := b\<rparr>) a ci =
     (case linkLeafWithPartner c ws st a ci of (st', r) \<Rightarrow> (st'\<lparr>enabled := b\<rparr>, r))"
  by (simp add: linkLeafWithPartner_def createPartner_enabled Let_def
      split: completion.splits option.splits prod.splits)

text \<open>
  Claim C7. With \<open>enabled\<close> false, either event handler returns at once: no load is
  instructed and the state is unchanged. \<open>linkLeafWithPartner\<close> does not read the setting:
  run with the setting changed to any value, it returns the same leaf and the same state
  but for the setting itself.
\<close>

theorem enabled_gates_events_not_linking:
  "(\<not> enabled st \<longrightarrow>
      onActiveLeafChange ws st leafOpt = (st, Returns ()) \<and>
      onFileOpen ws st fileOpt = (st, Returns ())) \<and>
   linkLeafWithPartner c ws (st\<lparr>enabled := b\<rparr>) a ci =
     (case linkLeafWithPartner c ws st a ci of (st', r) \<Rightarrow> (st'\<lparr>enabled := b\<rparr>, r))"
  by (simp add: onActiveLeafChange_def onFileOpen_def linkLeafWithPartner_enabled)

text \<open>
  With the setting off, the events for the linked pane 1 do nothing, and linking pane 1
  pairs it with pane 2 as it does with the setting on.
\<close>

theorem enabled_gates_events_not_linking_witness:
  "onActiveLeafChange threePanes (linkedOneTwo\<lparr>enabled := False\<rparr>) (Some 1) =
     (linkedOneTwo\<lparr>enabled := False\<rparr>, Returns ()) \<and>
   onFileOpen threePanes (linkedOneTwo\<lparr>enabled := False\<rparr>) (Some draftMd) =
     (linkedOneTwo\<lparr>enabled := False\<rparr>, Returns ()) \<and>
   linkLeafWithPartner False threePanes (initial False) 1 True =
     (\<lparr>enabled = False, isSyncing = False, linkedLeaves = [(1, [2]), (2, [1])], opened = []\<rparr>,
      Returns (Some 2)) \<and>
   linkLeafWithPartner False threePanes (initial True) 1 True =
     (\<lparr>enabled = True, isSyncing = False, linkedLeaves = [(1, [2]), (2, [1])], opened = []\<rparr>,
      Returns (Some 2))"
proof -
  have e: "\<not> enabled (linkedOneTwo\<lparr>enabled := False\<rparr>)"
    by simp
  have i: "initial False = (initial True)\<lparr>enabled := False\<rparr>"
    by (simp add: initial_def)
  have l: "linkLeafWithPartner False threePanes (initial True) 1 True =
     (\<lparr>enabled = True, isSyncing = False, linkedLeaves = [(1, [2]), (2, [1])], opened = []\<rparr>,
      Returns (Some 2))"
    by code_simp
  show ?thesis
    using e l
      enabled_gates_events_not_linking [where st = "linkedOneTwo\<lparr>enabled := False\<rparr>"
        and ws = threePanes and leafOpt = "Some 1" and fileOpt = "Some draftMd"]
      enabled_gates_events_not_linking [where st = "initial True" and ws = threePanes
        and c = False and b = False and a = 1 and ci = True]
    by (simp add: i)
qed

section \<open>Linking a pane again\<close>

lemma linkLeafWithPartner_linkedLeaves:
  "linkedLeaves (fst (linkLeafWithPartner c ws st a ci)) =
     (case snd (linkLeafWithPartner c ws st a ci) of
        Returns (Some p) \<Rightarrow> setLinkedPair a p (linkedLeaves st)
      | Returns None \<Rightarrow> linkedLeaves st
      | Throws \<Rightarrow> linkedLeaves st)"
proof (cases "viewFile (leafView ws a)")
  case None
  then show ?thesis by (simp add: linkLeafWithPartner_def)
next
  case (Some f)
  show ?thesis
  proof (cases "findPartner ws a (path f) = None \<and> ci")
    case True
    then show ?thesis
      using createPartner_fields(2) [of c ws st a f] Some
      by (cases "createPartner c ws st a f")
        (auto simp add: linkLeafWithPartner_def Let_def split: completion.splits option.splits)
  next
    case False
    then show ?thesis
      using Some
      by (auto simp add: linkLeafWithPartner_def Let_def split: completion.splits option.splits)
  qed
qed

text \<open>
  Every entry point keeps the keys of the registry distinct and every set at one leaf at
  most; so does every run from the empty registry.
\<close>

lemma step_exclusive:
  assumes "wellFormed (linkedLeaves st) \<and> exclusive (linkedLeaves st)"
  shows "wellFormed (linkedLeaves (step ws st a)) \<and> exclusive (linkedLeaves (step ws st a))"
proof (cases a)
  case (Link c l ci)
  with assms show ?thesis
    by (simp add: linkLeafWithPartner_linkedLeaves wellFormed_setLinkedPair
        exclusive_setLinkedPair split: completion.splits option.splits)
next
  case (ActiveLeafChange ev)
  with assms show ?thesis
    by (simp add: onActiveLeafChange_def syncFileToLinkedLeaves_linkedLeaves
        split: option.splits)
next
  case (FileOpen ev)
  with assms show ?thesis
    by (simp add: onFileOpen_def syncFileToLinkedLeaves_linkedLeaves split: option.splits)
next
  case LayoutChange
  with assms show ?thesis
    by (simp add: cleanupClosedLeaves_filter wellFormed_filter exclusive_filter)
qed

lemma run_exclusive:
  "wellFormed (linkedLeaves st) \<and> exclusive (linkedLeaves st) \<Longrightarrow>
   wellFormed (linkedLeaves (run st acts)) \<and> exclusive (linkedLeaves (run st acts))"
  by (induction st acts rule: run.induct) (simp_all add: step_exclusive)

lemma run_initial_exclusive: "exclusive (linkedLeaves (run (initial en) acts))"
  using run_exclusive [of "initial en" acts]
  by (simp add: initial_def wellFormed_def exclusive_def)

text \<open>
  Claim C1. Three panes of the main area show the same document. Pane 1 is linked (its
  partner is pane 2, the first other pane that shows the document) and then pane 3 is
  linked (its partner is pane 1). Every set holds one leaf, and the registry is not
  symmetric: the set of pane 2 still holds pane 1, whose set holds pane 3.
\<close>

theorem relink_breaks_symmetry:
  "linkedLeaves (run (initial True)
      [(threePanes, Link False 1 True), (threePanes, Link False 3 True)]) =
     [(1, [3]), (2, [1]), (3, [1])] \<and>
   exclusive (linkedLeaves (run (initial True)
      [(threePanes, Link False 1 True), (threePanes, Link False 3 True)])) \<and>
   \<not> symmetricLinks (linkedLeaves (run (initial True)
      [(threePanes, Link False 1 True), (threePanes, Link False 3 True)]))"
  by code_simp

text \<open>
  Claim C2. Pane 1 is linked to pane 2, pane 2 has moved to another document, and pane 1
  is linked again: the call returns pane 3 and pairs the panes 1 and 3. The entry of
  pane 2 is as before: pane 2 still has pane 1 as its partner and still carries the
  indicator.
\<close>

theorem relink_keeps_old_partner_linked:
  "linkLeafWithPartner False paneTwoMoved linkedOneTwo 1 True =
     (linkedOneTwo\<lparr>linkedLeaves := [(1, [3]), (2, [1]), (3, [1])]\<rparr>, Returns (Some 3)) \<and>
   linkedPartner [(1, [3]), (2, [1]), (3, [1])] 2 = Some 1 \<and>
   indicatorLeaves [(1, [3]), (2, [1]), (3, [1])] = [1, 2, 3]"
  by code_simp

end
